theory Spec2Isabelle
  imports Main "HOL-Library.Sublist"
begin

section \<open>CodeMemoryPipeline: the incremental index of aqchat\<close>

text \<open>
  A shallow embedding of \<^verbatim>\<open>src/aqchat/pipelines/code_memory_pipeline.py\<close>.
  The class \<^verbatim>\<open>CodeMemoryPipeline\<close> becomes the record \<open>pipeline\<close>; each method
  becomes a function from the instance (and its arguments) to an outcome and the instance
  after the call, so that what a method has already assigned when it raises stays visible.
  The lock is not modelled: every method body runs under it, one call at a time.

  Conventions.
  \<^item> A path is the list of the components of an absolute, resolved path: a caller's
    argument \<^verbatim>\<open>p\<close> is represented by what \<^verbatim>\<open>Path(p).expanduser().resolve()\<close> denotes
    (so \<^verbatim>\<open>p.is_absolute()\<close> holds on line 153).
  \<^item> A string is a list of code points below 256. A dict is a map; the retrieval settings
    and the search arguments, which are only looked up by key and passed on, are written
    as the list of their items.
  \<^item> The file system is the list of its entries, in the order \<^verbatim>\<open>rglob\<close> yields them.
  \<^item> The Chroma collection lives in the persist directory; the handle
    \<^verbatim>\<open>self.vector_store\<close> writes through to it. The field \<open>persist_directory\<close> stands
    for what the directory on disk holds.
\<close>

subsection \<open>Python values, documents, errors\<close>

datatype pyval =
    PyNone
  | PyBool bool
  | PyInt int
  | PyFloat int int
  | PyStr string
  | PyObj

text \<open>\<open>PyFloat m e\<close> is the float \<open>m * 2 ^ e\<close>; \<open>PyObj\<close> is any list, dict or other
  object. Values are only stored, compared with a string and passed on.\<close>

record document =
  page_content :: string
  metadata :: "string \<rightharpoonup> pyval"

datatype error =
    FileNotFoundError string
  | RuntimeError string
  | ValueError string
  | TypeError string
  | KeyError string
  | ValidationError
  | EmptyBatchError
  | ChromaError

text \<open>The last three come from the libraries, and their messages are not modelled:
  \<open>ValidationError\<close> is what \<^verbatim>\<open>as_retriever\<close> raises for arguments it rejects,
  \<open>EmptyBatchError\<close> the \<^verbatim>\<open>ValueError\<close> of Chroma for an empty list of documents,
  \<open>ChromaError\<close> what Chroma raises on a directory it cannot open.\<close>

datatype outcome = Returned | Raised error

type_synonym path = "string list"

datatype entry = Directory | TextFile string | BinaryFile

type_synonym filesystem = "(path \<times> entry) list"

subsection \<open>Strings and paths\<close>

definition isspace :: "char \<Rightarrow> bool" where
  "isspace c = ((of_char c :: nat) \<in> {9, 10, 11, 12, 13, 28, 29, 30, 31, 32, 133, 160})"

definition strip :: "string \<Rightarrow> string" where
  "strip s = rev (dropWhile isspace (rev (dropWhile isspace s)))"

text \<open>\<^verbatim>\<open>str.lower\<close> on one code point: the letters \<open>A\<close> to \<open>Z\<close> (65 to 90) and the
  Latin-1 capitals (192 to 222, without 215) move up by 32, which sets bit 5.\<close>

definition lower_char :: "char \<Rightarrow> char" where
  "lower_char c =
     (let n = (of_char c :: nat)
      in if (65 \<le> n \<and> n \<le> 90) \<or> (192 \<le> n \<and> n \<le> 222 \<and> n \<noteq> 215)
         then (case c of Char b0 b1 b2 b3 b4 b5 b6 b7 \<Rightarrow> Char b0 b1 b2 b3 b4 True b6 b7)
         else c)"

definition lower :: "string \<Rightarrow> string" where
  "lower s = map lower_char s"

text \<open>\<^verbatim>\<open>PurePath.name\<close>: the last component, empty for the root.\<close>

definition name :: "path \<Rightarrow> string" where
  "name p = (if p = [] then [] else last p)"

text \<open>\<^verbatim>\<open>PurePath.suffix\<close>: with \<open>i\<close> the index of the last dot of the name, the name
  from \<open>i\<close> on when \<open>0 < i < len(name) - 1\<close>, else the empty string.\<close>

definition suffix :: "path \<Rightarrow> string" where
  "suffix p =
     (let nm = name p; ext = takeWhile (\<lambda>c. c \<noteq> CHR ''.'') (rev nm)
      in if CHR ''.'' \<in> set nm \<and> ext \<noteq> [] \<and> Suc (length ext) < length nm
         then CHR ''.'' # rev ext else [])"

text \<open>\<^verbatim>\<open>str\<close> of a relative path (\<^verbatim>\<open>"."\<close> when empty) and of an absolute one.\<close>

fun join :: "string list \<Rightarrow> string" where
  "join [] = []"
| "join [c] = c"
| "join (c # cs) = c @ CHR ''/'' # join cs"

definition str_rel :: "path \<Rightarrow> string" where
  "str_rel p = (if p = [] then ''.'' else join p)"

definition str_abs :: "path \<Rightarrow> string" where
  "str_abs p = CHR ''/'' # join p"

text \<open>\<^verbatim>\<open>p.relative_to(root)\<close>: \<^verbatim>\<open>TypeError\<close> when \<open>root\<close> is \<^verbatim>\<open>None\<close>,
  \<^verbatim>\<open>ValueError\<close> when \<open>root\<close> is not a prefix of \<open>p\<close>.\<close>

definition relative_to :: "path \<Rightarrow> path option \<Rightarrow> error + path" where
  "relative_to p root =
     (case root of
        None \<Rightarrow> Inl (TypeError ''expected str, bytes or os.PathLike object, not NoneType'')
      | Some r \<Rightarrow>
          if prefix r p then Inr (drop (length r) p)
          else Inl (ValueError (str_abs p @ '' is not in the subpath of '' @ str_abs r)))"

definition exists_path :: "filesystem \<Rightarrow> path \<Rightarrow> bool" where
  "exists_path fs p = (map_of fs p \<noteq> None)"

definition is_dir :: "entry \<Rightarrow> bool" where
  "is_dir e = (e = Directory)"

definition is_file :: "entry \<Rightarrow> bool" where
  "is_file e = (e \<noteq> Directory)"

text \<open>\<^verbatim>\<open>root.rglob("*")\<close>: every entry strictly below \<open>root\<close>, at any depth.\<close>

definition rglob :: "filesystem \<Rightarrow> path \<Rightarrow> (path \<times> entry) list" where
  "rglob fs root = filter (\<lambda>(p, e). strict_prefix root p) fs"

subsection \<open>The external collaborators\<close>

text \<open>
  \<^verbatim>\<open>TextLoader(path, encoding="utf-8").load()\<close>: one document holding the text of the
  file, its \<^verbatim>\<open>source\<close> the path as a string; a \<^verbatim>\<open>RuntimeError\<close> when the file
  cannot be opened or decoded.
\<close>

definition text_loader_load :: "filesystem \<Rightarrow> path \<Rightarrow> error + document list" where
  "text_loader_load fs p =
     (case map_of fs p of
        Some (TextFile t) \<Rightarrow>
          Inr [\<lparr>page_content = t, metadata = [''source'' \<mapsto> PyStr (str_abs p)]\<rparr>]
      | _ \<Rightarrow> Inl (RuntimeError (''Error loading '' @ str_abs p)))"

text \<open>\<^verbatim>\<open>filter_complex_metadata\<close>: keeps the metadata entries whose value is a
  \<^verbatim>\<open>str\<close>, \<^verbatim>\<open>bool\<close>, \<^verbatim>\<open>int\<close> or \<^verbatim>\<open>float\<close>.\<close>

fun is_simple :: "pyval \<Rightarrow> bool" where
  "is_simple (PyStr _) = True"
| "is_simple (PyBool _) = True"
| "is_simple (PyInt _) = True"
| "is_simple (PyFloat _ _) = True"
| "is_simple _ = False"

definition filter_complex_metadata :: "document list \<Rightarrow> document list" where
  "filter_complex_metadata ds =
     map (\<lambda>d. d\<lparr>metadata :=
            (\<lambda>key. case metadata d key of
                     None \<Rightarrow> None
                   | Some v \<Rightarrow> if is_simple v then Some v else None)\<rparr>) ds"

text \<open>
  The Chroma store. What the persist directory holds is no entry at all, entries that
  Chroma cannot open, or a collection of documents. \<open>Chroma\<close> is the handle that
  \<^verbatim>\<open>self.vector_store\<close> holds; its operations act on the directory.
  \<^item> \<open>chroma_open\<close> is \<^verbatim>\<open>Chroma(persist_directory=..., embedding_function=...)\<close>;
  \<^item> \<open>add_documents\<close> appends the documents and raises when there is none to add;
  \<^item> \<open>from_documents\<close> is \<^verbatim>\<open>Chroma.from_documents\<close>: it opens (or creates) the
    collection in the directory and then adds the documents to it, so that a failure of
    the second step leaves the collection of the first behind;
  \<^item> \<open>delete_where\<close> is \<^verbatim>\<open>delete(where={"source": s})\<close>;
  \<^item> \<open>as_retriever\<close> validates its arguments: the search type has to be one of
    \<^verbatim>\<open>similarity\<close>, \<^verbatim>\<open>similarity_score_threshold\<close> and \<^verbatim>\<open>mmr\<close>, and the search
    arguments a dict; \<^verbatim>\<open>None\<close> is rejected for either. The retriever it returns is
    represented by the arguments it was given.
  Embedding is not modelled. A handle counts as true in a condition.
\<close>

datatype persisted = NoEntries | Unreadable | Collection "document list"

datatype chroma = Chroma

record retriever_args =
  search_type :: "string option"
  search_kwargs :: "(string \<times> pyval) list option"

text \<open>\<^verbatim>\<open>any(self.persist_directory.iterdir())\<close>.\<close>

fun has_entries :: "persisted \<Rightarrow> bool" where
  "has_entries NoEntries = False"
| "has_entries _ = True"

definition source :: "document \<Rightarrow> pyval option" where
  "source d = metadata d ''source''"

definition chroma_open :: "persisted \<Rightarrow> error + chroma \<times> persisted" where
  "chroma_open dir =
     (case dir of
        NoEntries \<Rightarrow> Inr (Chroma, Collection [])
      | Unreadable \<Rightarrow> Inl ChromaError
      | Collection ds \<Rightarrow> Inr (Chroma, Collection ds))"

definition add_documents :: "document list \<Rightarrow> persisted \<Rightarrow> error + persisted" where
  "add_documents chunks dir =
     (case dir of
        Collection ds \<Rightarrow>
          if chunks = [] then Inl EmptyBatchError else Inr (Collection (ds @ chunks))
      | _ \<Rightarrow> Inl ChromaError)"

definition from_documents ::
  "document list \<Rightarrow> persisted \<Rightarrow> (error + chroma) \<times> persisted" where
  "from_documents chunks dir =
     (case chroma_open dir of
        Inl e \<Rightarrow> (Inl e, dir)
      | Inr (vs, dir') \<Rightarrow>
          (case add_documents chunks dir' of
             Inl e \<Rightarrow> (Inl e, dir')
           | Inr dir'' \<Rightarrow> (Inr vs, dir'')))"

definition delete_where :: "string \<Rightarrow> persisted \<Rightarrow> error + persisted" where
  "delete_where s dir =
     (case dir of
        Collection ds \<Rightarrow> Inr (Collection (filter (\<lambda>d. source d \<noteq> Some (PyStr s)) ds))
      | _ \<Rightarrow> Inl ChromaError)"

definition allowed_search_types :: "string list" where
  "allowed_search_types = [''similarity'', ''similarity_score_threshold'', ''mmr'']"

definition as_retriever ::
  "chroma \<Rightarrow> string option \<Rightarrow> (string \<times> pyval) list option \<Rightarrow> error + retriever_args" where
  "as_retriever vs st kw =
     (case (st, kw) of
        (Some t, Some args) \<Rightarrow>
          if t \<in> set allowed_search_types
          then Inr \<lparr>search_type = st, search_kwargs = kw\<rparr>
          else Inl ValidationError
      | _ \<Rightarrow> Inl ValidationError)"

subsection \<open>The instance\<close>

text \<open>
  \<open>text_splitter\<close> is \<^verbatim>\<open>self.text_splitter.split_documents\<close> with the boundary
  detectors of the instance: the splitter is not part of the files modelled here and is a
  parameter of the instance. \<open>chain\<close> is the attribute that only \<^verbatim>\<open>_clear\<close> assigns.
\<close>

datatype chain_attr = ChainUnset | ChainNone

record pipeline =
  retrieval_settings :: "(string \<times> pyval) list"
  text_splitter :: "document list \<Rightarrow> document list"
  include_ext :: "string set"
  persist_directory :: persisted
  vector_store :: "chroma option"
  retriever :: "retriever_args option"
  chain :: chain_attr
  repo_root :: "path option"

text \<open>\<^verbatim>\<open>d[key]\<close> on a dict.\<close>

definition getitem :: "(string \<times> pyval) list \<Rightarrow> string \<Rightarrow> error + pyval" where
  "getitem d key = (case map_of d key of None \<Rightarrow> Inl (KeyError key) | Some v \<Rightarrow> Inr v)"

text \<open>Lines 260 to 275 of \<^verbatim>\<open>_build_chain\<close>: the search type and the search arguments.\<close>

definition search_settings ::
  "(string \<times> pyval) list \<Rightarrow> error + string option \<times> (string \<times> pyval) list option" where
  "search_settings rs =
     (case getitem rs ''ret_strat'' of
        Inl e \<Rightarrow> Inl e
      | Inr ret_strat \<Rightarrow>
          if ret_strat = PyStr ''mmr'' then
            (case getitem rs ''k'' of
               Inl e \<Rightarrow> Inl e
             | Inr k \<Rightarrow>
                 (case getitem rs ''fetch_k'' of
                    Inl e \<Rightarrow> Inl e
                  | Inr fetch_k \<Rightarrow>
                      (case getitem rs ''lambda_mult'' of
                         Inl e \<Rightarrow> Inl e
                       | Inr lambda_mult \<Rightarrow>
                           Inr (Some ''mmr'',
                                Some [(''k'', k), (''fetch_k'', fetch_k),
                                      (''lambda_mult'', lambda_mult)]))))
          else if ret_strat = PyStr ''similarity'' then
            (case getitem rs ''k'' of
               Inl e \<Rightarrow> Inl e
             | Inr k \<Rightarrow> Inr (Some ''similarity'', Some [(''k'', k)]))
          else Inr (None, None))"

definition build_chain :: "pipeline \<Rightarrow> outcome \<times> pipeline" where
  "build_chain self =
     (case vector_store self of
        None \<Rightarrow>
          (Raised (RuntimeError
             ''Vector store must be initialised before building the retriever.''), self)
      | Some vs \<Rightarrow>
          (case search_settings (retrieval_settings self) of
             Inl e \<Rightarrow> (Raised e, self)
           | Inr (ret_strat, kw) \<Rightarrow>
               (case as_retriever vs ret_strat kw of
                  Inl e \<Rightarrow> (Raised e, self)
                | Inr r \<Rightarrow> (Returned, self\<lparr>retriever := Some r\<rparr>))))"

subsection \<open>File-system helpers\<close>

definition load_single_file :: "filesystem \<Rightarrow> path \<Rightarrow> path \<Rightarrow> error + document list" where
  "load_single_file fs abs_path rel_path =
     (case text_loader_load fs abs_path of
        Inl e \<Rightarrow> Inl e
      | Inr ds \<Rightarrow>
          Inr (map (\<lambda>doc. doc\<lparr>metadata :=
                 (metadata doc)(''source'' \<mapsto> PyStr (str_rel rel_path))\<rparr>) ds))"

definition ignore_dirs :: "string set" where
  "ignore_dirs = {''.git'', ''.venv'', ''__pycache__'', ''dist'', ''build'', ''.idea''}"

text \<open>The loop of \<^verbatim>\<open>_load_repo\<close> over the paths that \<^verbatim>\<open>rglob\<close> yields.\<close>

fun load_paths ::
  "string set \<Rightarrow> filesystem \<Rightarrow> path \<Rightarrow> (path \<times> entry) list \<Rightarrow> error + document list" where
  "load_paths exts fs root [] = Inr []"
| "load_paths exts fs root ((p, e) # rest) =
     (if is_dir e \<and> name p \<in> ignore_dirs then load_paths exts fs root rest
      else if is_file e \<and> lower (suffix p) \<in> exts then
        (case relative_to p (Some root) of
           Inl err \<Rightarrow> Inl err
         | Inr rel \<Rightarrow>
             (case load_single_file fs p rel of
                Inl err \<Rightarrow> Inl err
              | Inr ds \<Rightarrow>
                  (case load_paths exts fs root rest of
                     Inl err \<Rightarrow> Inl err
                   | Inr ds' \<Rightarrow> Inr (ds @ ds'))))
      else load_paths exts fs root rest)"

definition load_repo :: "pipeline \<Rightarrow> filesystem \<Rightarrow> path \<Rightarrow> error + document list" where
  "load_repo self fs root = load_paths (include_ext self) fs root (rglob fs root)"

subsection \<open>Construction\<close>

definition default_include_ext :: "string list" where
  "default_include_ext =
     [''.md'', ''.rst'', ''.txt'', ''.json'', ''.toml'', ''.cfg'', ''.yaml'', ''.yml'',
      ''.py'', ''.rs'']"

definition default_retrieval_settings :: "(string \<times> pyval) list" where
  "default_retrieval_settings =
     [(''ret_strat'', PyStr ''mmr''), (''k'', PyInt 6), (''fetch_k'', PyInt 20),
      (''lambda_mult'', PyFloat 1 (- 1))]"

text \<open>The line that \<^verbatim>\<open>__init__\<close> prints on line 103, with the exception it reports.\<close>

datatype printed = CouldNotInitialize error

text \<open>
  \<^verbatim>\<open>__init__\<close>, given the retrieval settings, the splitter, \<^verbatim>\<open>include_ext\<close> and what
  the persist directory holds (\<^verbatim>\<open>mkdir\<close> creates it without entries when it is missing).
  The result is the instance and the lines printed.
\<close>

definition init ::
  "(string \<times> pyval) list \<Rightarrow> (document list \<Rightarrow> document list) \<Rightarrow> string list option \<Rightarrow>
   persisted \<Rightarrow> pipeline \<times> printed list" where
  "init settings splitter exts dir =
     (let self = \<lparr>retrieval_settings = settings,
                  text_splitter = splitter,
                  include_ext = set (case exts of
                                       None \<Rightarrow> default_include_ext
                                     | Some xs \<Rightarrow> if xs = [] then default_include_ext else xs),
                  persist_directory = dir,
                  vector_store = None,
                  retriever = None,
                  chain = ChainUnset,
                  repo_root = None\<rparr>
      in if has_entries dir then
           (case chroma_open dir of
              Inl ex \<Rightarrow>
                (self\<lparr>vector_store := None, retriever := None\<rparr>, [CouldNotInitialize ex])
            | Inr (vs, dir') \<Rightarrow>
                (case build_chain (self\<lparr>persist_directory := dir', vector_store := Some vs\<rparr>) of
                   (Raised ex, self') \<Rightarrow>
                     (self'\<lparr>vector_store := None, retriever := None\<rparr>,
                      [CouldNotInitialize ex])
                 | (Returned, self') \<Rightarrow> (self', [])))
         else (self, []))"

subsection \<open>Ingestion and update\<close>

definition ingest :: "pipeline \<Rightarrow> filesystem \<Rightarrow> path \<Rightarrow> outcome \<times> pipeline" where
  "ingest self fs repo_path =
     (if \<not> exists_path fs repo_path
      then (Raised (FileNotFoundError (str_abs repo_path @ '' does not exist'')), self)
      else
        let self = self\<lparr>repo_root := Some repo_path\<rparr>
        in case load_repo self fs repo_path of
             Inl e \<Rightarrow> (Raised e, self)
           | Inr docs \<Rightarrow>
               let chunks = text_splitter self docs;
                   chunks = filter_complex_metadata chunks;
                   chunks = filter (\<lambda>chunk. 3 < length (strip (page_content chunk))) chunks
               in case from_documents chunks (persist_directory self) of
                    (Inl e, dir) \<Rightarrow> (Raised e, self\<lparr>persist_directory := dir\<rparr>)
                  | (Inr vs, dir) \<Rightarrow>
                      build_chain (self\<lparr>persist_directory := dir, vector_store := Some vs\<rparr>))"

text \<open>Lines 150 to 158: the paths relative to the repo root, or the first error.\<close>

fun normalise :: "path option \<Rightarrow> path list \<Rightarrow> error + path list" where
  "normalise root [] = Inr []"
| "normalise root (p # ps) =
     (case relative_to p root of
        Inl (ValueError m) \<Rightarrow>
          Inl (ValueError (str_abs p @ '' is outside the ingested repository root''))
      | Inl e \<Rightarrow> Inl e
      | Inr rel \<Rightarrow>
          (case normalise root ps of
             Inl e \<Rightarrow> Inl e
           | Inr rels \<Rightarrow> Inr (rel # rels)))"

text \<open>Lines 161 and 162: one \<^verbatim>\<open>delete\<close> for each normalised path.\<close>

fun delete_all :: "path list \<Rightarrow> persisted \<Rightarrow> error + persisted" where
  "delete_all [] dir = Inr dir"
| "delete_all (rel_path # rest) dir =
     (case delete_where (str_rel rel_path) dir of
        Inl e \<Rightarrow> Inl e
      | Inr dir' \<Rightarrow> delete_all rest dir')"

text \<open>Lines 165 to 171: the documents of the paths that still exist under the root.\<close>

fun load_fresh :: "filesystem \<Rightarrow> path option \<Rightarrow> path list \<Rightarrow> error + document list" where
  "load_fresh fs root [] = Inr []"
| "load_fresh fs root (rel_path # rest) =
     (case root of
        None \<Rightarrow> Inl (TypeError ''unsupported operand type(s) for /'')
      | Some r \<Rightarrow>
          let abs_path = r @ rel_path
          in if \<not> exists_path fs abs_path then load_fresh fs root rest
             else
               (case load_single_file fs abs_path rel_path of
                  Inl e \<Rightarrow> Inl e
                | Inr ds \<Rightarrow>
                    (case load_fresh fs root rest of
                       Inl e \<Rightarrow> Inl e
                     | Inr ds' \<Rightarrow> Inr (ds @ ds'))))"

definition update_files :: "pipeline \<Rightarrow> filesystem \<Rightarrow> path list \<Rightarrow> outcome \<times> pipeline" where
  "update_files self fs file_paths =
     (case vector_store self of
        None \<Rightarrow> (Raised (RuntimeError ''Call .ingest(<repo>) before updating files.''), self)
      | Some vs \<Rightarrow>
          (case normalise (repo_root self) file_paths of
             Inl e \<Rightarrow> (Raised e, self)
           | Inr normalised \<Rightarrow>
               (case delete_all normalised (persist_directory self) of
                  Inl e \<Rightarrow> (Raised e, self)
                | Inr dir \<Rightarrow>
                    let self = self\<lparr>persist_directory := dir\<rparr>
                    in case load_fresh fs (repo_root self) normalised of
                         Inl e \<Rightarrow> (Raised e, self)
                       | Inr docs \<Rightarrow>
                           if docs \<noteq> [] then
                             (let chunks = text_splitter self docs;
                                  chunks = filter_complex_metadata chunks;
                                  chunks = filter
                                    (\<lambda>chunk. 3 < length (strip (page_content chunk))) chunks
                              in (case add_documents chunks (persist_directory self) of
                                    Inl e \<Rightarrow> (Raised e, self)
                                  | Inr dir' \<Rightarrow>
                                      build_chain (self\<lparr>persist_directory := dir'\<rparr>)))
                           else build_chain self)))"

subsection \<open>Public API\<close>


definition clear :: "pipeline \<Rightarrow> pipeline" where
  "clear self =
     self\<lparr>vector_store := None, retriever := None, chain := ChainNone, repo_root := None\<rparr>"


definition clear_vector_db :: "pipeline \<Rightarrow> pipeline" where
  "clear_vector_db self = (clear self)\<lparr>persist_directory := NoEntries\<rparr>"

definition set_retrieval_settings ::
  "pipeline \<Rightarrow> (string \<times> pyval) list \<Rightarrow> outcome \<times> pipeline" where
  "set_retrieval_settings self settings =
     build_chain (self\<lparr>retrieval_settings := settings\<rparr>)"

text \<open>What a persist directory holds, as a list of documents.\<close>

definition stored :: "persisted \<Rightarrow> document list" where
  "stored dir = (case dir of Collection ds \<Rightarrow> ds | _ \<Rightarrow> [])"

text \<open>The chunks that \<^verbatim>\<open>ingest\<close> (lines 123 to 127) and \<^verbatim>\<open>update_files\<close> (lines
  174 to 178) make of the loaded documents before they hand them to the store.\<close>

definition fresh_chunks :: "pipeline \<Rightarrow> document list \<Rightarrow> document list" where
  "fresh_chunks self docs =
     filter (\<lambda>chunk. 3 < length (strip (page_content chunk)))
       (filter_complex_metadata (text_splitter self docs))"

text \<open>The \<^verbatim>\<open>source\<close> values that the normalised paths stand for.\<close>

definition sources_of :: "path list \<Rightarrow> pyval option set" where
  "sources_of rels = (\<lambda>r. Some (PyStr (str_rel r))) ` set rels"


subsection \<open>Example inputs\<close>

text \<open>A splitter that cuts each document into its lines; every chunk inherits the
  metadata of its document.\<close>

fun split_lines :: "string \<Rightarrow> string list" where
  "split_lines [] = [[]]"
| "split_lines (c # cs) =
     (if c = CHR 0x0A then [] # split_lines cs
      else (case split_lines cs of l # ls \<Rightarrow> (c # l) # ls | [] \<Rightarrow> [[c]]))"

definition line_splitter :: "document list \<Rightarrow> document list" where
  "line_splitter docs =
     concat (map (\<lambda>d. map (\<lambda>l. d\<lparr>page_content := l\<rparr>) (split_lines (page_content d))) docs)"

definition repo_v1 :: filesystem where
  "repo_v1 =
     [([''repo''], Directory),
      ([''repo'', ''.venv''], Directory),
      ([''repo'', ''.venv'', ''x.py''], TextFile ''print(1234)''),
      ([''repo'', ''a.py''], TextFile (''def f():'' @ [CHR 0x0A] @ ''  x'' @ [CHR 0x0A] @ ''  return 1'')),
      ([''repo'', ''b.py''], TextFile ''import os''),
      ([''repo'', ''logo.png''], BinaryFile)]"

definition repo_v2 :: filesystem where
  "repo_v2 =
     [([''repo''], Directory),
      ([''repo'', ''a.py''], TextFile (''def g():'' @ [CHR 0x0A] @ ''  return 2''))]"

definition fresh_instance :: pipeline where
  "fresh_instance = fst (init default_retrieval_settings line_splitter None NoEntries)"

definition restored_instance :: pipeline where
  "restored_instance =
     fst (init default_retrieval_settings line_splitter None
            (Collection [\<lparr>page_content = ''import os'', metadata = [''source'' \<mapsto> PyStr ''b.py'']\<rparr>]))"

definition ingested_instance :: pipeline where
  "ingested_instance = snd (ingest fresh_instance repo_v1 [''repo''])"


definition updated_once :: pipeline where
  "updated_once = snd (update_files ingested_instance repo_v2 [[''repo'', ''a.py'']])"


definition view :: "document list \<Rightarrow> (pyval option \<times> string) list" where
  "view ds = map (\<lambda>d. (source d, page_content d)) ds"


definition hybrid_settings :: "(string \<times> pyval) list" where
  "hybrid_settings = [(''ret_strat'', PyStr ''hybrid''), (''k'', PyInt 4)]"


definition similarity_settings :: "(string \<times> pyval) list" where
  "similarity_settings = [(''ret_strat'', PyStr ''similarity''), (''k'', PyInt 4)]"

section \<open>Properties\<close>

subsection \<open>Auxiliary facts\<close>

lemma as_retriever_Inr:
  "as_retriever vs t kw = Inr r \<Longrightarrow> r = \<lparr>search_type = t, search_kwargs = kw\<rparr>"
  by (auto simp: as_retriever_def split: option.splits if_splits)

lemma build_chain_Returned:
  assumes "build_chain self = (Returned, s')"
  shows "\<exists>vs t kw. vector_store self = Some vs
           \<and> search_settings (retrieval_settings self) = Inr (t, kw)
           \<and> as_retriever vs t kw = Inr \<lparr>search_type = t, search_kwargs = kw\<rparr>
           \<and> s' = self\<lparr>retriever := Some \<lparr>search_type = t, search_kwargs = kw\<rparr>\<rparr>"
  using assms
  by (auto simp: build_chain_def split: option.splits sum.splits dest: as_retriever_Inr)

lemma build_chain_frame:
  "persist_directory (snd (build_chain self)) = persist_directory self"
  "vector_store (snd (build_chain self)) = vector_store self"
  "retrieval_settings (snd (build_chain self)) = retrieval_settings self"
  "repo_root (snd (build_chain self)) = repo_root self"
  "text_splitter (snd (build_chain self)) = text_splitter self"
  by (auto simp: build_chain_def split: option.splits sum.splits)


lemma delete_all_Collection:
  "delete_all rels (Collection ds) =
     Inr (Collection [d \<leftarrow> ds. source d \<notin> sources_of rels])"
proof (induction rels arbitrary: ds)
  case Nil
  then show ?case by (simp add: sources_of_def)
next
  case (Cons r rels)
  have "[d \<leftarrow> [d \<leftarrow> ds. source d \<noteq> Some (PyStr (str_rel r))]. source d \<notin> sources_of rels]
        = [d \<leftarrow> ds. source d \<notin> sources_of (r # rels)]"
    by (induction ds) (auto simp: sources_of_def)
  with Cons show ?case by (simp add: delete_where_def)
qed

lemma delete_all_stored:
  assumes "delete_all rels dir = Inr dir'"
  shows "stored dir' = [d \<leftarrow> stored dir. source d \<notin> sources_of rels]"
proof (cases dir)
  case (Collection ds)
  with assms show ?thesis by (auto simp: delete_all_Collection stored_def)
next
  case NoEntries
  with assms show ?thesis
    by (cases rels) (simp_all add: delete_where_def stored_def)
next
  case Unreadable
  with assms show ?thesis
    by (cases rels) (simp_all add: delete_where_def stored_def)
qed

lemma add_documents_stored:
  "add_documents chunks dir = Inr dir' \<Longrightarrow> stored dir' = stored dir @ chunks"
  by (cases dir) (auto simp: add_documents_def stored_def split: if_splits)

lemma fresh_chunks_persist [simp]:
  "fresh_chunks (self\<lparr>persist_directory := dir\<rparr>) docs = fresh_chunks self docs"
  by (simp add: fresh_chunks_def)


lemma update_files_invariant:
  assumes "\<forall>d \<in> set (stored (persist_directory self)). P d"
    and "\<And>docs. \<forall>d \<in> set (fresh_chunks self docs). P d"
  shows "\<forall>d \<in> set (stored (persist_directory (snd (update_files self fs paths)))). P d"
proof (cases "vector_store self")
  case None
  with assms show ?thesis by (simp add: update_files_def)
next
  case (Some vs)
  show ?thesis
  proof (cases "normalise (repo_root self) paths")
    case (Inl e)
    with Some assms show ?thesis by (simp add: update_files_def)
  next
    case (Inr rels)
    note rels = this
    show ?thesis
    proof (cases "delete_all rels (persist_directory self)")
      case (Inl e)
      with Some rels assms show ?thesis by (simp add: update_files_def)
    next
      case (Inr dir)
      note dir = this
      from delete_all_stored [OF dir] assms(1) have Pdir: "\<forall>d \<in> set (stored dir). P d"
        by simp
      show ?thesis
      proof (cases "load_fresh fs (repo_root self) rels")
        case (Inl e)
        with Some rels dir Pdir show ?thesis by (simp add: update_files_def)
      next
        case (Inr docs)
        note docs = this
        show ?thesis
        proof (cases "docs = []")
          case True
          with Some rels dir docs Pdir show ?thesis
            by (simp add: update_files_def build_chain_frame)
        next
          case False
          note ne = this
          show ?thesis
          proof (cases "add_documents (fresh_chunks self docs) dir")
            case (Inl e)
            with Some rels dir docs ne Pdir show ?thesis
              by (simp add: update_files_def fresh_chunks_def)
          next
            case (Inr dir')
            from add_documents_stored [OF Inr] Pdir assms(2) [of docs]
            have "\<forall>d \<in> set (stored dir'). P d" by auto
            with Some rels dir docs ne Inr show ?thesis
              by (simp add: update_files_def fresh_chunks_def build_chain_frame)
          qed
        qed
      qed
    qed
  qed
qed

lemma from_documents_stored:
  "from_documents chunks dir = (Inr vs, dir') \<Longrightarrow> stored dir' = stored dir @ chunks"
  by (cases dir)
     (auto simp: from_documents_def chroma_open_def add_documents_def stored_def
           split: if_splits)

lemma from_documents_failed:
  "from_documents chunks dir = (Inl e, dir') \<Longrightarrow> stored dir' = stored dir"
  by (cases dir)
     (auto simp: from_documents_def chroma_open_def add_documents_def stored_def
           split: if_splits)

lemma ingest_invariant:
  assumes "\<forall>d \<in> set (stored (persist_directory self)). P d"
    and "\<And>docs. \<forall>d \<in> set (fresh_chunks self docs). P d"
  shows "\<forall>d \<in> set (stored (persist_directory (snd (ingest self fs root)))). P d"
proof (cases "exists_path fs root")
  case False
  with assms show ?thesis by (simp add: ingest_def)
next
  case True
  let ?s = "self\<lparr>repo_root := Some root\<rparr>"
  show ?thesis
  proof (cases "load_repo ?s fs root")
    case (Inl e)
    with True assms show ?thesis by (simp add: ingest_def)
  next
    case (Inr docs)
    note docs = this
    have fc: "fresh_chunks self docs =
       filter (\<lambda>chunk. 3 < length (strip (page_content chunk)))
         (filter_complex_metadata (text_splitter self docs))"
      by (simp add: fresh_chunks_def)
    show ?thesis
    proof (cases "from_documents (fresh_chunks self docs) (persist_directory self)")
      case (Pair r dir)
      show ?thesis
      proof (cases r)
        case (Inl e)
        from from_documents_failed [OF Pair [unfolded Inl]] assms(1)
        have "\<forall>d \<in> set (stored dir). P d" by simp
        with True docs Pair Inl fc show ?thesis by (simp add: ingest_def)
      next
        case (Inr vs)
        from from_documents_stored [OF Pair [unfolded Inr]] assms(1) assms(2) [of docs]
        have "\<forall>d \<in> set (stored dir). P d" by auto
        with True docs Pair Inr fc show ?thesis
          by (simp add: ingest_def build_chain_frame)
      qed
    qed
  qed
qed

lemma ingest_Returned:
  assumes "ingest self fs root = (Returned, s')"
  shows "\<exists>docs vs t kw.
           load_repo (self\<lparr>repo_root := Some root\<rparr>) fs root = Inr docs
         \<and> search_settings (retrieval_settings self) = Inr (t, kw)
         \<and> vector_store s' = Some vs
         \<and> retriever s' = Some \<lparr>search_type = t, search_kwargs = kw\<rparr>
         \<and> repo_root s' = Some root
         \<and> retrieval_settings s' = retrieval_settings self
         \<and> stored (persist_directory s') = stored (persist_directory self) @ fresh_chunks self docs"
proof -
  let ?s = "self\<lparr>repo_root := Some root\<rparr>"
  from assms have ex: "exists_path fs root"
    by (auto simp: ingest_def split: if_splits)
  from assms ex obtain docs where docs: "load_repo ?s fs root = Inr docs"
    by (auto simp: ingest_def Let_def split: sum.splits)
  from assms ex docs obtain vs dir where
    fd: "from_documents (fresh_chunks self docs) (persist_directory self) = (Inr vs, dir)" and
    bc: "build_chain (?s\<lparr>persist_directory := dir, vector_store := Some vs\<rparr>) = (Returned, s')"
    by (auto simp: ingest_def Let_def fresh_chunks_def split: sum.splits prod.splits)
  from build_chain_Returned [OF bc] obtain t kw where
    "search_settings (retrieval_settings self) = Inr (t, kw)"
    "s' = ?s\<lparr>persist_directory := dir, vector_store := Some vs,
              retriever := Some \<lparr>search_type = t, search_kwargs = kw\<rparr>\<rparr>"
    by auto
  with docs from_documents_stored [OF fd] show ?thesis by auto
qed

lemma pair_fst_snd: "fst x = a \<Longrightarrow> x = (a, snd x)"
  by (cases x) simp

lemma normalise_error:
  "normalise root ps = Inl e \<Longrightarrow> (\<exists>m. e = ValueError m) \<or> (\<exists>m. e = TypeError m)"
proof (induction ps arbitrary: e)
  case Nil
  then show ?case by simp
next
  case (Cons p ps)
  then show ?case
    by (cases root)
       (auto simp: relative_to_def split: if_splits sum.splits error.splits)
qed

lemma delete_all_error: "delete_all rels dir = Inl e \<Longrightarrow> e = ChromaError"
  by (induction rels arbitrary: dir)
     (auto simp: delete_where_def split: sum.splits persisted.splits)

lemma load_single_file_error:
  "load_single_file fs a r = Inl e \<Longrightarrow> \<exists>x. e = RuntimeError (''Error loading '' @ x)"
  by (auto simp: load_single_file_def text_loader_load_def
           split: sum.splits option.splits entry.splits)

lemma load_fresh_error:
  "load_fresh fs root rels = Inl e \<Longrightarrow>
     (\<exists>m. e = TypeError m) \<or> (\<exists>x. e = RuntimeError (''Error loading '' @ x))"
proof (induction rels)
  case Nil
  then show ?case by simp
next
  case (Cons r rels)
  then show ?case
    by (cases root)
       (auto simp: Let_def split: if_splits sum.splits dest: load_single_file_error)
qed

lemma add_documents_error:
  "add_documents chunks dir = Inl e \<Longrightarrow> e = ChromaError \<or> e = EmptyBatchError"
  by (auto simp: add_documents_def split: persisted.splits if_splits)

lemma search_settings_error: "search_settings rs = Inl e \<Longrightarrow> \<exists>k. e = KeyError k"
  by (auto simp: search_settings_def getitem_def split: sum.splits option.splits if_splits)

lemma build_chain_error:
  "vector_store self = Some vs \<Longrightarrow> fst (build_chain self) = Raised e \<Longrightarrow>
     (\<exists>k. e = KeyError k) \<or> e = ValidationError"
  by (auto simp: build_chain_def as_retriever_def
           split: sum.splits option.splits if_splits dest: search_settings_error)

lemma update_files_with_store:
  assumes "vector_store self = Some vs"
  shows "fst (update_files self fs paths) \<noteq>
           Raised (RuntimeError ''Call .ingest(<repo>) before updating files.'')"
proof
  let ?g = "RuntimeError ''Call .ingest(<repo>) before updating files.''"
  assume r: "fst (update_files self fs paths) = Raised ?g"
  show False
  proof (cases "normalise (repo_root self) paths")
    case (Inl e)
    with assms r normalise_error [OF Inl] show False by (auto simp: update_files_def)
  next
    case (Inr rels)
    note rels = this
    show False
    proof (cases "delete_all rels (persist_directory self)")
      case (Inl e)
      with assms r rels delete_all_error [OF Inl] show False by (auto simp: update_files_def)
    next
      case (Inr dir)
      note dir = this
      show False
      proof (cases "load_fresh fs (repo_root self) rels")
        case (Inl e)
        with assms r rels dir load_fresh_error [OF Inl] show False
          by (auto simp: update_files_def)
      next
        case (Inr docs)
        note docs = this
        let ?s = "self\<lparr>persist_directory := dir\<rparr>"
        have vs: "vector_store ?s = Some vs" using assms by simp
        show False
        proof (cases "docs = []")
          case True
          with assms r rels dir docs have "fst (build_chain ?s) = Raised ?g"
            by (simp add: update_files_def)
          from build_chain_error [OF vs this] show False by simp
        next
          case False
          note ne = this
          show False
          proof (cases "add_documents (fresh_chunks self docs) dir")
            case (Inl e)
            with assms r rels dir docs ne add_documents_error [OF Inl] show False
              by (auto simp: update_files_def fresh_chunks_def)
          next
            case (Inr dir')
            let ?s' = "self\<lparr>persist_directory := dir'\<rparr>"
            have vs': "vector_store ?s' = Some vs" using assms by simp
            from assms r rels dir docs ne Inr have "fst (build_chain ?s') = Raised ?g"
              by (simp add: update_files_def fresh_chunks_def)
            from build_chain_error [OF vs' this] show False by simp
          qed
        qed
      qed
    qed
  qed
qed

lemma normalise_outside:
  assumes "\<exists>p \<in> set ps. \<not> prefix root p"
  shows "normalise (Some root) ps =
           Inl (ValueError (str_abs (hd [p \<leftarrow> ps. \<not> prefix root p])
                  @ '' is outside the ingested repository root''))"
  using assms
proof (induction ps)
  case Nil
  then show ?case by simp
next
  case (Cons p ps)
  show ?case
  proof (cases "prefix root p")
    case True
    with Cons.prems have "\<exists>p \<in> set ps. \<not> prefix root p" by simp
    from Cons.IH [OF this] True show ?thesis by (simp add: relative_to_def)
  next
    case False
    then show ?thesis by (simp add: relative_to_def)
  qed
qed


















subsection \<open>Retriever build policy\<close>

text \<open>
  For the two tags it knows, \<^verbatim>\<open>_build_chain\<close> on an instance with a vector store hands
  the store these arguments and returns: for \<^verbatim>\<open>mmr\<close> exactly \<^verbatim>\<open>k\<close>,
  \<^verbatim>\<open>fetch_k\<close> and \<^verbatim>\<open>lambda_mult\<close>, for \<^verbatim>\<open>similarity\<close> exactly \<^verbatim>\<open>k\<close>.
\<close>

lemma build_chain_known_tags:
  assumes "vector_store self = Some vs"
    and "map_of (retrieval_settings self) ''ret_strat'' = Some tag"
  shows "(tag = PyStr ''mmr'' \<longrightarrow>
            (\<forall>k f l. map_of (retrieval_settings self) ''k'' = Some k
                  \<and> map_of (retrieval_settings self) ''fetch_k'' = Some f
                  \<and> map_of (retrieval_settings self) ''lambda_mult'' = Some l \<longrightarrow>
               build_chain self =
                 (Returned, self\<lparr>retriever := Some \<lparr>search_type = Some ''mmr'',
                    search_kwargs = Some [(''k'', k), (''fetch_k'', f), (''lambda_mult'', l)]\<rparr>\<rparr>)))
       \<and> (tag = PyStr ''similarity'' \<longrightarrow>
            (\<forall>k. map_of (retrieval_settings self) ''k'' = Some k \<longrightarrow>
               build_chain self =
                 (Returned, self\<lparr>retriever := Some \<lparr>search_type = Some ''similarity'',
                    search_kwargs = Some [(''k'', k)]\<rparr>\<rparr>)))"
  using assms
  by (simp add: build_chain_def search_settings_def getitem_def as_retriever_def
      allowed_search_types_def)

text \<open>
  Claim C4 does not hold of the code for a tag it does not know. The last branch of
  \<^verbatim>\<open>_build_chain\<close> sets the search type and the search arguments to \<^verbatim>\<open>None\<close> and
  passes both to \<^verbatim>\<open>as_retriever\<close>, which rejects them: the build raises instead of
  falling back to the default search of the store. On an instance that restored a store
  with the default settings, \<^verbatim>\<open>set_retrieval_settings\<close> with the tag \<^verbatim>\<open>hybrid\<close>
  raises and leaves the retriever of the old settings in place.
\<close>

theorem build_chain_unrecognised_tag_example:
  "search_settings hybrid_settings = Inr (None, None)
   \<and> as_retriever Chroma None None = Inl ValidationError
   \<and> vector_store restored_instance = Some Chroma
   \<and> fst (build_chain (restored_instance\<lparr>retrieval_settings := hybrid_settings\<rparr>)) =
       Raised ValidationError
   \<and> fst (set_retrieval_settings restored_instance hybrid_settings) = Raised ValidationError
   \<and> retriever (snd (set_retrieval_settings restored_instance hybrid_settings)) =
       Some \<lparr>search_type = Some ''mmr'',
             search_kwargs = Some [(''k'', PyInt 6), (''fetch_k'', PyInt 20),
                                   (''lambda_mult'', PyFloat 1 (- 1))]\<rparr>"
  by code_simp

subsection \<open>Clearing the in-memory state\<close>

text \<open>
  Claim C8. \<^verbatim>\<open>clear\<close> sets the vector-store handle, the retriever and the remembered
  repo root to \<^verbatim>\<open>None\<close> (and with them the attribute \<^verbatim>\<open>chain\<close>, which nothing
  reads). It leaves what the persist directory holds, the retrieval settings, the splitter
  and the eligible extensions as they were, so that an instance constructed over the
  directory afterwards restores what it would have restored before.
\<close>

theorem clear_in_memory_only:
  "vector_store (clear self) = None
   \<and> retriever (clear self) = None
   \<and> repo_root (clear self) = None
   \<and> chain (clear self) = ChainNone
   \<and> persist_directory (clear self) = persist_directory self
   \<and> retrieval_settings (clear self) = retrieval_settings self
   \<and> text_splitter (clear self) = text_splitter self
   \<and> include_ext (clear self) = include_ext self
   \<and> fst (init (retrieval_settings self) (text_splitter self) exts
             (persist_directory (clear self)))
       = fst (init (retrieval_settings self) (text_splitter self) exts (persist_directory self))"
  by (simp add: clear_def)


subsection \<open>Changing the retrieval settings without a store\<close>

text \<open>
  Claim C10. When no vector store is loaded, \<^verbatim>\<open>set_retrieval_settings\<close> raises the
  error of \<^verbatim>\<open>_build_chain\<close>, and the instance it leaves behind already holds the new
  settings: the call is not atomic. The next build that succeeds, which is the one of an
  \<^verbatim>\<open>ingest\<close> that returns, makes its retriever from the new settings.
\<close>

theorem set_retrieval_settings_not_atomic:
  assumes "vector_store self = None"
  shows "set_retrieval_settings self new =
           (Raised (RuntimeError
              ''Vector store must be initialised before building the retriever.''),
            self\<lparr>retrieval_settings := new\<rparr>)
       \<and> (\<forall>fs root s'.
            ingest (snd (set_retrieval_settings self new)) fs root = (Returned, s') \<longrightarrow>
            (\<exists>t kw. search_settings new = Inr (t, kw)
                  \<and> retriever s' = Some \<lparr>search_type = t, search_kwargs = kw\<rparr>))"
proof -
  have a: "set_retrieval_settings self new =
           (Raised (RuntimeError
              ''Vector store must be initialised before building the retriever.''),
            self\<lparr>retrieval_settings := new\<rparr>)"
    using assms by (simp add: set_retrieval_settings_def build_chain_def)
  have "\<exists>t kw. search_settings new = Inr (t, kw)
                  \<and> retriever s' = Some \<lparr>search_type = t, search_kwargs = kw\<rparr>"
    if "ingest (snd (set_retrieval_settings self new)) fs root = (Returned, s')" for fs root s'
    using ingest_Returned [OF that] by (auto simp: a)
  with a show ?thesis by blast
qed

theorem set_retrieval_settings_not_atomic_witness:
  "vector_store fresh_instance = None
   \<and> fst (set_retrieval_settings fresh_instance similarity_settings) =
       Raised (RuntimeError ''Vector store must be initialised before building the retriever.'')
   \<and> retrieval_settings (snd (set_retrieval_settings fresh_instance similarity_settings)) =
       similarity_settings
   \<and> fst (ingest (snd (set_retrieval_settings fresh_instance similarity_settings))
            repo_v1 [''repo'']) = Returned
   \<and> retriever (snd (ingest (snd (set_retrieval_settings fresh_instance similarity_settings))
            repo_v1 [''repo''])) =
       Some \<lparr>search_type = Some ''similarity'', search_kwargs = Some [(''k'', PyInt 4)]\<rparr>"
proof -
  let ?s1 = "snd (set_retrieval_settings fresh_instance similarity_settings)"
  let ?s2 = "snd (ingest ?s1 repo_v1 [''repo''])"
  have none: "vector_store fresh_instance = None"
    by (simp add: fresh_instance_def init_def)
  note inst = set_retrieval_settings_not_atomic [OF none, of similarity_settings]
  have ret: "fst (ingest ?s1 repo_v1 [''repo'']) = Returned"
    by code_simp
  then have "ingest ?s1 repo_v1 [''repo''] = (Returned, ?s2)"
    by (rule pair_fst_snd)
  with inst obtain t kw where
    "search_settings similarity_settings = Inr (t, kw)"
    "retriever ?s2 = Some \<lparr>search_type = t, search_kwargs = kw\<rparr>"
    by blast
  moreover have "search_settings similarity_settings =
      Inr (Some ''similarity'', Some [(''k'', PyInt 4)])"
    by (simp add: search_settings_def similarity_settings_def getitem_def)
  ultimately have "retriever ?s2 =
    Some \<lparr>search_type = Some ''similarity'', search_kwargs = Some [(''k'', PyInt 4)]\<rparr>"
    by simp
  with none ret inst show ?thesis by simp
qed

subsection \<open>Restoring a persisted store at construction\<close>




subsection \<open>Updating without a store\<close>

text \<open>
  Claim C3, as the code has it. The guard of \<^verbatim>\<open>update_files\<close> tests the vector-store
  handle. While the instance holds none (nothing restored at construction and no ingest
  yet, or the handles cleared), every call raises the \<^verbatim>\<open>RuntimeError\<close> that asks for
  an ingest and leaves the instance as it was; after an \<^verbatim>\<open>ingest\<close> that returns, the
  handle is set and no call raises that error again.
\<close>

theorem update_files_without_store:
  assumes "vector_store self = None"
  shows "update_files self fs paths =
           (Raised (RuntimeError ''Call .ingest(<repo>) before updating files.''), self)
       \<and> (\<forall>fs' root s'. ingest self fs' root = (Returned, s') \<longrightarrow>
             vector_store s' \<noteq> None
           \<and> (\<forall>fs'' paths'. fst (update_files s' fs'' paths') \<noteq>
                 Raised (RuntimeError ''Call .ingest(<repo>) before updating files.'')))"
proof -
  have a: "update_files self fs paths =
           (Raised (RuntimeError ''Call .ingest(<repo>) before updating files.''), self)"
    using assms by (simp add: update_files_def)
  have "vector_store s' \<noteq> None
           \<and> (\<forall>fs'' paths'. fst (update_files s' fs'' paths') \<noteq>
                 Raised (RuntimeError ''Call .ingest(<repo>) before updating files.''))"
    if "ingest self fs' root = (Returned, s')" for fs' root s'
  proof -
    from ingest_Returned [OF that] obtain vs where "vector_store s' = Some vs" by blast
    with update_files_with_store [of s' vs] show ?thesis by simp
  qed
  with a show ?thesis by blast
qed

theorem update_files_without_store_witness:
  "vector_store fresh_instance = None
   \<and> update_files fresh_instance repo_v2 [[''repo'', ''a.py'']] =
       (Raised (RuntimeError ''Call .ingest(<repo>) before updating files.''), fresh_instance)
   \<and> fst (ingest fresh_instance repo_v1 [''repo'']) = Returned
   \<and> vector_store ingested_instance \<noteq> None
   \<and> fst (update_files ingested_instance repo_v2 [[''repo'', ''a.py'']]) \<noteq>
       Raised (RuntimeError ''Call .ingest(<repo>) before updating files.'')"
proof -
  have none: "vector_store fresh_instance = None"
    by (simp add: fresh_instance_def init_def)
  note inst = update_files_without_store [OF none, of repo_v2 "[[''repo'', ''a.py'']]"]
  have ret: "fst (ingest fresh_instance repo_v1 [''repo'']) = Returned"
    by code_simp
  then have "ingest fresh_instance repo_v1 [''repo''] = (Returned, ingested_instance)"
    unfolding ingested_instance_def by (rule pair_fst_snd)
  with inst have "vector_store ingested_instance \<noteq> None"
    and "fst (update_files ingested_instance repo_v2 [[''repo'', ''a.py'']]) \<noteq>
       Raised (RuntimeError ''Call .ingest(<repo>) before updating files.'')"
    by blast+
  with none ret inst show ?thesis by blast
qed

text \<open>
  Claim C3, as stated, fails for an instance that restored a persisted store at
  construction: it holds a handle, so the guard lets the call through although no ingest
  has run. With a path the call then raises the \<^verbatim>\<open>TypeError\<close> of
  \<^verbatim>\<open>relative_to(None)\<close>; with no path it returns.
\<close>

theorem update_files_restored_counterexample:
  "vector_store restored_instance = Some Chroma
   \<and> repo_root restored_instance = None
   \<and> fst (update_files restored_instance repo_v2 [[''repo'', ''a.py'']]) =
       Raised (TypeError ''expected str, bytes or os.PathLike object, not NoneType'')
   \<and> fst (update_files restored_instance repo_v2 []) = Returned"
  by code_simp

subsection \<open>Paths outside the repo root\<close>

text \<open>
  Claim C7. On an instance that holds a store and remembers a repo root, a call of
  \<^verbatim>\<open>update_files\<close> in which some path is not below the root raises a
  \<^verbatim>\<open>ValueError\<close> that names the first such path. Nothing has been deleted or added
  by then: the instance after the call is the instance before it.
\<close>

theorem update_files_out_of_scope:
  assumes "vector_store self = Some vs"
    and "repo_root self = Some root"
    and "\<exists>p \<in> set paths. \<not> prefix root p"
  shows "update_files self fs paths =
           (Raised (ValueError (str_abs (hd [p \<leftarrow> paths. \<not> prefix root p])
                      @ '' is outside the ingested repository root'')), self)"
  using assms normalise_outside [OF assms(3)] by (simp add: update_files_def)

theorem update_files_out_of_scope_witness:
  "update_files ingested_instance repo_v2 [[''repo'', ''a.py''], [''etc'', ''passwd'']] =
     (Raised (ValueError ''/etc/passwd is outside the ingested repository root''),
      ingested_instance)"
proof -
  have vs: "vector_store ingested_instance = Some Chroma" by code_simp
  have root: "repo_root ingested_instance = Some [''repo'']" by code_simp
  have out: "\<exists>p \<in> set [[''repo'', ''a.py''], [''etc'', ''passwd'']]. \<not> prefix [''repo''] p"
    by simp
  from update_files_out_of_scope [OF vs root out, of repo_v2]
  show ?thesis by (simp add: str_abs_def)
qed

subsection \<open>Ignored directories\<close>

text \<open>
  Claim C2 does not hold of the code. \<^verbatim>\<open>_load_repo\<close> skips the entry of an ignored
  directory itself, but \<^verbatim>\<open>rglob\<close> still yields what lies below it. In the example
  repository the file \<^verbatim>\<open>.venv/x.py\<close> is loaded as a document and its chunk is stored
  by \<^verbatim>\<open>ingest\<close>.
\<close>

theorem load_repo_ignored_directory_example:
  "map_sum id view (load_repo fresh_instance repo_v1 [''repo'']) =
     Inr [(Some (PyStr ''.venv/x.py''), ''print(1234)''),
          (Some (PyStr ''a.py''), ''def f():'' @ [CHR 0x0A] @ ''  x'' @ [CHR 0x0A] @ ''  return 1''),
          (Some (PyStr ''b.py''), ''import os'')]
   \<and> view (stored (persist_directory (snd (ingest fresh_instance repo_v1 [''repo''])))) =
       [(Some (PyStr ''.venv/x.py''), ''print(1234)''),
        (Some (PyStr ''a.py''), ''def f():''),
        (Some (PyStr ''a.py''), ''  return 1''),
        (Some (PyStr ''b.py''), ''import os'')]"
  by code_simp


subsection \<open>One generation of chunks for each path\<close>




subsection \<open>Files that are gone\<close>




subsection \<open>Short chunks\<close>

text \<open>
  Claim C6. Both \<^verbatim>\<open>ingest\<close> and \<^verbatim>\<open>update_files\<close> drop every chunk whose stripped
  content has 3 characters or fewer before they hand the chunks to the store. So when
  every stored chunk is longer than that before the call (as in an empty store), every
  stored chunk is longer than that after it, whether the call returns or raises.
\<close>

theorem stored_chunks_longer_than_three:
  assumes "\<forall>d \<in> set (stored (persist_directory self)). 3 < length (strip (page_content d))"
  shows "(\<forall>d \<in> set (stored (persist_directory (snd (ingest self fs root)))).
            3 < length (strip (page_content d)))
       \<and> (\<forall>d \<in> set (stored (persist_directory (snd (update_files self fs' paths)))).
            3 < length (strip (page_content d)))"
proof -
  have fresh: "\<forall>d \<in> set (fresh_chunks self docs). 3 < length (strip (page_content d))" for docs
    by (simp add: fresh_chunks_def)
  from ingest_invariant [where P = "\<lambda>d. 3 < length (strip (page_content d))", OF assms fresh]
       update_files_invariant [where P = "\<lambda>d. 3 < length (strip (page_content d))",
         OF assms fresh]
  show ?thesis by blast
qed


theorem stored_chunks_longer_than_three_witness:
  "list_all (\<lambda>d. 3 < length (strip (page_content d)))
     (stored (persist_directory ingested_instance))
   \<and> list_all (\<lambda>d. 3 < length (strip (page_content d)))
     (stored (persist_directory updated_once))
   \<and> map page_content (line_splitter
         [\<lparr>page_content = ''def f():'' @ [CHR 0x0A] @ ''  x'' @ [CHR 0x0A] @ ''  return 1'',
           metadata = Map.empty\<rparr>]) = [''def f():'', ''  x'', ''  return 1'']
   \<and> map page_content (stored (persist_directory ingested_instance)) =
       [''print(1234)'', ''def f():'', ''  return 1'', ''import os'']"
proof -
  have empty: "\<forall>d \<in> set (stored (persist_directory fresh_instance)).
                 3 < length (strip (page_content d))"
    by (simp add: fresh_instance_def init_def stored_def)
  from stored_chunks_longer_than_three [OF empty, where fs = repo_v1 and root = "[''repo'']"]
  have a: "\<forall>d \<in> set (stored (persist_directory ingested_instance)).
       3 < length (strip (page_content d))"
    unfolding ingested_instance_def by blast
  from stored_chunks_longer_than_three
         [OF a, where ?fs' = repo_v2 and paths = "[[''repo'', ''a.py'']]"]
  have b: "\<forall>d \<in> set (stored (persist_directory updated_once)).
       3 < length (strip (page_content d))"
    unfolding updated_once_def by blast
  have c: "map page_content (line_splitter
         [\<lparr>page_content = ''def f():'' @ [CHR 0x0A] @ ''  x'' @ [CHR 0x0A] @ ''  return 1'',
           metadata = Map.empty\<rparr>]) = [''def f():'', ''  x'', ''  return 1'']"
    by code_simp
  have d: "map page_content (stored (persist_directory ingested_instance)) =
       [''print(1234)'', ''def f():'', ''  return 1'', ''import os'']"
    by code_simp
  from a b c d show ?thesis by (simp add: list_all_iff)
qed


end
